theory Spec2Isabelle
  imports Main
begin

section \<open>Go strings, slices and formatting\<close>

text \<open>
  A Go \<^verbatim>\<open>string\<close> is a sequence of bytes: here a \<^typ>\<open>string\<close>. The functions of
  package \<^verbatim>\<open>strings\<close> that gossip.go calls are written out; a slice expression, which
  panics when its bound is out of range, returns an option.
\<close>

definition HasPrefix :: "string \<Rightarrow> string \<Rightarrow> bool" where
  "HasPrefix s p = (length p \<le> length s \<and> take (length p) s = p)"

fun Contains :: "string \<Rightarrow> string \<Rightarrow> bool" where
  "Contains [] sub = (sub = [])"
| "Contains (c # cs) sub = (HasPrefix (c # cs) sub \<or> Contains cs sub)"

text \<open>\<^verbatim>\<open>strings.LastIndex(s, sep)\<close>: the index of the last instance of \<open>sep\<close> in \<open>s\<close>, or -1.\<close>

fun LastIndex :: "string \<Rightarrow> string \<Rightarrow> int" where
  "LastIndex [] sep = (if sep = [] then 0 else - 1)"
| "LastIndex (c # cs) sep =
     (let r = LastIndex cs sep
      in if 0 \<le> r then r + 1 else if HasPrefix (c # cs) sep then 0 else - 1)"

text \<open>\<^verbatim>\<open>s[:hi]\<close> and \<^verbatim>\<open>s[lo:]\<close>; \<open>None\<close> is the run-time panic "slice bounds out of range".\<close>

definition slice_to :: "string \<Rightarrow> int \<Rightarrow> string option" where
  "slice_to s hi = (if 0 \<le> hi \<and> hi \<le> int (length s) then Some (take (nat hi) s) else None)"

definition slice_from :: "string \<Rightarrow> int \<Rightarrow> string option" where
  "slice_from s lo = (if 0 \<le> lo \<and> lo \<le> int (length s) then Some (drop (nat lo) s) else None)"

text \<open>\<^verbatim>\<open>fmt.Sprintf("%d", n)\<close> and \<^verbatim>\<open>fmt.Sprintf("%02d", n)\<close> for an integer \<open>n\<close>.\<close>

definition is_digit :: "char \<Rightarrow> bool" where
  "is_digit c = (c \<in> set ''0123456789'')"

definition digit_char :: "nat \<Rightarrow> char" where
  "digit_char d = ''0123456789'' ! d"

function digits :: "nat \<Rightarrow> string" where
  "digits n = (if n < 10 then [digit_char n] else digits (n div 10) @ [digit_char (n mod 10)])"
  by pat_completeness auto
termination
  by (relation "measure (\<lambda>n. n)") auto

declare digits.simps [simp del]

definition zero_pad :: "nat \<Rightarrow> string \<Rightarrow> string" where
  "zero_pad width ds = replicate (width - length ds) CHR ''0'' @ ds"

definition Sprintf_d :: "int \<Rightarrow> string" where
  "Sprintf_d n = (if n < 0 then CHR ''-'' # digits (nat (- n)) else digits (nat n))"

definition Sprintf_02d :: "int \<Rightarrow> string" where
  "Sprintf_02d n =
     (if n < 0 then CHR ''-'' # zero_pad 1 (digits (nat (- n))) else zero_pad 2 (digits (nat n)))"

section \<open>Errors and results\<close>

text \<open>
  A Go \<^verbatim>\<open>error\<close> value: one made by \<^verbatim>\<open>errors.New\<close>, an error of package \<^verbatim>\<open>os\<close>
  (\<open>ErrNotExist\<close> is the one \<^verbatim>\<open>os.IsNotExist\<close> recognises), or an error of the template
  engine. A function that returns \<^verbatim>\<open>error\<close> can also panic.
\<close>

datatype error =
    ErrorsNew string
  | ErrNotExist
  | ErrNotDir
  | ErrIsDir
  | ErrPermission
  | ErrIO string
  | TemplateError string

datatype panic_value = SliceBoundsOutOfRange | PanicError error

datatype 'a result = Ok 'a | Err error | Panic panic_value

definition IsNotExist :: "error option \<Rightarrow> bool" where
  "IsNotExist err = (err = Some ErrNotExist)"

section \<open>Format\<close>

datatype Format = MARKDOWN | HTML

definition formats :: "string \<rightharpoonup> Format" where
  "formats = [''txt'' \<mapsto> MARKDOWN, ''md'' \<mapsto> MARKDOWN, ''html'' \<mapsto> HTML]"

text \<open>
  \<^verbatim>\<open>Format.Convert\<close>. The converter \<^verbatim>\<open>blackfriday.MarkdownBasic\<close> is another package's: a
  parameter.
\<close>

definition Convert :: "(string \<Rightarrow> string) \<Rightarrow> Format \<Rightarrow> string \<Rightarrow> string" where
  "Convert MarkdownBasic f input = (case f of MARKDOWN \<Rightarrow> MarkdownBasic input | _ \<Rightarrow> input)"

section \<open>Times, file infos and paths\<close>

text \<open>
  A \<^verbatim>\<open>time.Time\<close> as gossip.go reads it: through \<^verbatim>\<open>Year()\<close>, an \<^verbatim>\<open>int\<close>, and
  \<^verbatim>\<open>Month()\<close>, one of the twelve constants of \<^verbatim>\<open>time.Month\<close> (January = 1).
\<close>

datatype Month =
    January | February | March | April | May | June
  | July | August | September | October | November | December

fun month_number :: "Month \<Rightarrow> int" where
  "month_number January = 1"
| "month_number February = 2"
| "month_number March = 3"
| "month_number April = 4"
| "month_number May = 5"
| "month_number June = 6"
| "month_number July = 7"
| "month_number August = 8"
| "month_number September = 9"
| "month_number October = 10"
| "month_number November = 11"
| "month_number December = 12"

record Time =
  Year :: int
  Month :: Month

text \<open>\<^verbatim>\<open>os.FileInfo\<close>: the four methods the code calls.\<close>

record FileInfo =
  Name :: string
  IsDir :: bool
  Mode :: nat
  ModTime :: Time

text \<open>
  A file name is a base directory (\<^verbatim>\<open>s.Source\<close> or \<^verbatim>\<open>s.Dest\<close>, as the strings they are)
  and the elements below it: \<open>Path b [e1, e2]\<close> is \<^verbatim>\<open>filepath.Join(b, e1, e2)\<close>.
  \<^verbatim>\<open>filepath.Rel\<close> of a base and a name below it gives the elements; as a string they are
  joined by the separator, and the base itself is \<^verbatim>\<open>"."\<close>.
\<close>

datatype path = Path string "string list"

fun Join :: "path \<Rightarrow> string list \<Rightarrow> path" where
  "Join (Path b es) elems = Path b (es @ elems)"

fun Rel :: "string \<Rightarrow> path \<Rightarrow> error + string list" where
  "Rel base (Path b es) =
     (if b = base then Inr es else Inl (ErrorsNew ''Rel: can't make relative''))"

fun path_string :: "string list \<Rightarrow> string" where
  "path_string [] = ''.''"
| "path_string [e] = e"
| "path_string (e # es) = e @ ''/'' @ path_string es"

section \<open>The file system and the other packages\<close>

text \<open>
  What is found at a base directory: a regular file (name, mode, modification time,
  content), a directory (name, mode, modification time, the error of listing it if there
  is one, its entries in the order a listing gives them), or a name whose \<^verbatim>\<open>lstat\<close> fails.
  Symbolic links are not modelled.
\<close>

datatype node =
    File string nat Time string
  | Dir string nat Time "error option" "node list"
  | NoInfo string error

fun node_name :: "node \<Rightarrow> string" where
  "node_name (File n m t c) = n"
| "node_name (Dir n m t l cs) = n"
| "node_name (NoInfo n e) = n"

fun node_is_dir :: "node \<Rightarrow> bool" where
  "node_is_dir (Dir n m t l cs) = True"
| "node_is_dir nd = False"

fun lstat :: "node \<Rightarrow> error + FileInfo" where
  "lstat (File n m t c) = Inr \<lparr>Name = n, IsDir = False, Mode = m, ModTime = t\<rparr>"
| "lstat (Dir n m t l cs) = Inr \<lparr>Name = n, IsDir = True, Mode = m, ModTime = t\<rparr>"
| "lstat (NoInfo n e) = Inl e"

fun find_child :: "string \<Rightarrow> node list \<Rightarrow> node option" where
  "find_child n [] = None"
| "find_child n (c # cs) = (if node_name c = n then Some c else find_child n cs)"

fun lookup :: "node \<Rightarrow> string list \<Rightarrow> error + node" where
  "lookup nd [] = (case nd of NoInfo n e \<Rightarrow> Inl e | _ \<Rightarrow> Inr nd)"
| "lookup nd (e # es) =
     (case nd of
        Dir n m t l cs \<Rightarrow>
          (case find_child e cs of None \<Rightarrow> Inl ErrNotExist | Some c \<Rightarrow> lookup c es)
      | File n m t c \<Rightarrow> Inl ErrNotDir
      | NoInfo n err \<Rightarrow> Inl err)"

text \<open>
  The calls whose failure is not a matter of the tree: opening or reading a source file,
  \<^verbatim>\<open>Stat\<close> on an open file, creating a destination file, copying into it.
\<close>

datatype op = OpOpen | OpRead | OpFstat | OpCreate | OpCopy

text \<open>
  A parsed template is what \<^verbatim>\<open>Execute\<close> does with the \<^verbatim>\<open>Content\<close> it is given: the
  bytes written and the error returned.
\<close>

type_synonym template = "string \<Rightarrow> string \<times> error option"

text \<open>
  The world a run reads: the tree at each base directory, the failing calls, the markdown
  converter and the template parser. The run's own writes go to the destination and are
  recorded as the calls made; the tree read from the source is taken not to change during
  the run (source and destination are distinct trees).
\<close>

record world =
  fs :: "string \<Rightarrow> node"
  fault :: "op \<Rightarrow> path \<Rightarrow> error option"
  MarkdownBasic :: "string \<Rightarrow> string"
  Parse :: "string \<Rightarrow> error + template"

datatype event =
    Mkdir path nat
  | MkdirAll path nat
  | Create path
  | Chmod path nat
  | Write path string

fun at :: "world \<Rightarrow> path \<Rightarrow> error + node" where
  "at w (Path b es) = lookup (fs w b) es"

definition os_Stat :: "world \<Rightarrow> path \<Rightarrow> error + FileInfo" where
  "os_Stat w p = (case at w p of Inl e \<Rightarrow> Inl e | Inr nd \<Rightarrow> lstat nd)"

definition ReadFile :: "world \<Rightarrow> path \<Rightarrow> error + string" where
  "ReadFile w p =
     (case at w p of
        Inl e \<Rightarrow> Inl e
      | Inr (File n m t c) \<Rightarrow> (case fault w OpRead p of Some e \<Rightarrow> Inl e | None \<Rightarrow> Inr c)
      | Inr (Dir n m t l cs) \<Rightarrow> Inl ErrIsDir
      | Inr (NoInfo n e) \<Rightarrow> Inl e)"

text \<open>
  \<^verbatim>\<open>ioutil.ReadDir\<close>: the infos of the entries; an entry that has vanished since the
  listing is left out, any other \<^verbatim>\<open>lstat\<close> error is the result.
\<close>

fun entry_infos :: "node list \<Rightarrow> error + FileInfo list" where
  "entry_infos [] = Inr []"
| "entry_infos (c # cs) =
     (case lstat c of
        Inl e \<Rightarrow> (if IsNotExist (Some e) then entry_infos cs else Inl e)
      | Inr fi \<Rightarrow> (case entry_infos cs of Inl e \<Rightarrow> Inl e | Inr fis \<Rightarrow> Inr (fi # fis)))"

definition ReadDir :: "world \<Rightarrow> path \<Rightarrow> error + FileInfo list" where
  "ReadDir w p =
     (case at w p of
        Inl e \<Rightarrow> Inl e
      | Inr (Dir n m t l cs) \<Rightarrow> (case l of Some e \<Rightarrow> Inl e | None \<Rightarrow> entry_infos cs)
      | Inr (File n m t c) \<Rightarrow> Inl ErrNotDir
      | Inr (NoInfo n e) \<Rightarrow> Inl e)"

text \<open>\<^verbatim>\<open>template.ParseFiles\<close> of one file: read it, then parse it.\<close>

definition ParseFiles :: "world \<Rightarrow> path \<Rightarrow> error + template" where
  "ParseFiles w p = (case ReadFile w p of Inl e \<Rightarrow> Inl e | Inr text \<Rightarrow> Parse w text)"

section \<open>Post\<close>

record Post =
  content :: string
  pubdate :: Time
  destFileName :: string
  format :: Format
  fileInfo :: FileInfo

definition NewPostFromPath :: "world \<Rightarrow> path \<Rightarrow> Post result" where
  "NewPostFromPath w p =
     (case os_Stat w p of
        Inl err \<Rightarrow> Err err
      | Inr fi \<Rightarrow>
          (case ReadFile w p of
             Inl err \<Rightarrow> Err err
           | Inr bytes \<Rightarrow>
               (let idx = LastIndex (Name fi) ''.''
                in case slice_to (Name fi) idx of
                     None \<Rightarrow> Panic SliceBoundsOutOfRange
                   | Some stem \<Rightarrow>
                       (let newName = stem @ ''.html''
                        in case slice_from (Name fi) (idx + 1) of
                             None \<Rightarrow> Panic SliceBoundsOutOfRange
                           | Some ext \<Rightarrow>
                               (case formats ext of
                                  None \<Rightarrow> Err (ErrorsNew (''unknown format '' @ ext))
                                | Some fmt \<Rightarrow>
                                    Ok \<lparr>content = bytes, pubdate = ModTime fi,
                                        destFileName = newName, format = fmt,
                                        fileInfo = fi\<rparr>)))))"

definition dateParts :: "Post \<Rightarrow> string \<times> string" where
  "dateParts p =
     (Sprintf_d (Year (pubdate p)), Sprintf_02d (month_number (Month (pubdate p))))"

text \<open>\<^verbatim>\<open>Post.Generate\<close>: the bytes the template writes to \<^verbatim>\<open>wr\<close>, and the error returned.\<close>

definition Post_Generate :: "world \<Rightarrow> Post \<Rightarrow> template \<Rightarrow> string \<times> error option" where
  "Post_Generate w p tmpl =
     (let fmtContent = Convert (MarkdownBasic w) (format p) (content p) in tmpl fmtContent)"

section \<open>Site\<close>

record Site =
  Source :: string
  Dest :: string

definition NewSite :: "string \<Rightarrow> string \<Rightarrow> Site" where
  "NewSite source dest =
     \<lparr>Source = (if source = [] then ''.'' else source),
      Dest = (if dest = [] then ''./_site'' else dest)\<rparr>"

definition exists_path :: "world \<Rightarrow> path \<Rightarrow> bool" where
  "exists_path w p =
     (case os_Stat w p of Inl err \<Rightarrow> \<not> IsNotExist (Some err) | Inr fi \<Rightarrow> \<not> IsNotExist None)"

subsection \<open>copyFile and copyTree\<close>

definition os_Open :: "world \<Rightarrow> path \<Rightarrow> error + node" where
  "os_Open w p =
     (case at w p of
        Inl err \<Rightarrow> Inl err
      | Inr nd \<Rightarrow> (case fault w OpOpen p of Some err \<Rightarrow> Inl err | None \<Rightarrow> Inr nd))"

definition file_Stat :: "world \<Rightarrow> path \<Rightarrow> node \<Rightarrow> error + FileInfo" where
  "file_Stat w p nd = (case fault w OpFstat p of Some err \<Rightarrow> Inl err | None \<Rightarrow> lstat nd)"

definition io_Copy :: "world \<Rightarrow> path \<Rightarrow> node \<Rightarrow> error option \<times> event list" where
  "io_Copy w destName nd =
     (case nd of
        File n m t c \<Rightarrow>
          (case fault w OpCopy destName of
             Some err \<Rightarrow> (Some err, [])
           | None \<Rightarrow> (None, [Write destName c]))
      | _ \<Rightarrow> (Some ErrIsDir, []))"

text \<open>
  \<^verbatim>\<open>copyFile\<close>: the error returned (the byte count is read by no caller) and the calls
  made on the destination. The result of \<^verbatim>\<open>dest.Chmod\<close> is dropped by the code.
\<close>

definition copyFile :: "world \<Rightarrow> path \<Rightarrow> path \<Rightarrow> error option \<times> event list" where
  "copyFile w srcName destName =
     (case os_Open w srcName of
        Inl err \<Rightarrow> (Some err, [])
      | Inr src \<Rightarrow>
          (case fault w OpCreate destName of
             Some err \<Rightarrow> (Some err, [Create destName])
           | None \<Rightarrow>
               (case file_Stat w srcName src of
                  Inl err \<Rightarrow> (Some err, [Create destName])
                | Inr fi \<Rightarrow>
                    (case io_Copy w destName src of
                       (err, evs) \<Rightarrow>
                         (err, [Create destName, Chmod destName (Mode fi)] @ evs)))))"

text \<open>
  \<^verbatim>\<open>filepath.Walk\<close>, the library's: the function is called with an error (it then reads
  nothing else) or with the info of the entry; a directory is listed before the function
  is called on it; the function's \<open>SkipDir\<close> skips the directory (or, from a file, the
  rest of its directory); any other error it returns ends the walk.
\<close>

datatype walk_result = WalkNil | SkipDir | WalkErr error

fun walk :: "(path \<Rightarrow> error + FileInfo \<Rightarrow> 'st \<Rightarrow> walk_result \<times> 'st) \<Rightarrow> path \<Rightarrow> node \<Rightarrow> 'st
               \<Rightarrow> walk_result \<times> 'st"
and walk_names :: "(path \<Rightarrow> error + FileInfo \<Rightarrow> 'st \<Rightarrow> walk_result \<times> 'st) \<Rightarrow> path \<Rightarrow> node list
               \<Rightarrow> 'st \<Rightarrow> walk_result \<times> 'st" where
  "walk fn p (File n m t c) st = fn p (lstat (File n m t c)) st"
| "walk fn p (NoInfo n e) st = fn p (Inl e) st"
| "walk fn p (Dir n m t l cs) st =
     (case l of
        Some err \<Rightarrow> fn p (Inl err) st
      | None \<Rightarrow>
          (case fn p (lstat (Dir n m t l cs)) st of
             (WalkNil, st1) \<Rightarrow> walk_names fn p cs st1
           | (r, st1) \<Rightarrow> (r, st1)))"
| "walk_names fn p [] st = (WalkNil, st)"
| "walk_names fn p (c # cs) st =
     (case lstat c of
        Inl err \<Rightarrow>
          (case fn (Join p [node_name c]) (Inl err) st of
             (WalkErr x, st1) \<Rightarrow> (WalkErr x, st1)
           | (r, st1) \<Rightarrow> walk_names fn p cs st1)
      | Inr info \<Rightarrow>
          (case walk fn (Join p [node_name c]) c st of
             (WalkNil, st1) \<Rightarrow> walk_names fn p cs st1
           | (SkipDir, st1) \<Rightarrow>
               (if \<not> IsDir info then (SkipDir, st1) else walk_names fn p cs st1)
           | (WalkErr x, st1) \<Rightarrow> (WalkErr x, st1)))"

definition Walk :: "(path \<Rightarrow> error + FileInfo \<Rightarrow> 'st \<Rightarrow> walk_result \<times> 'st) \<Rightarrow> path \<Rightarrow> node \<Rightarrow> 'st
               \<Rightarrow> walk_result \<times> 'st" where
  "Walk fn root nd st =
     (case walk fn root nd st of (SkipDir, st1) \<Rightarrow> (WalkNil, st1) | (r, st1) \<Rightarrow> (r, st1))"

text \<open>The variable \<^verbatim>\<open>ok\<close> that the function literal of \<^verbatim>\<open>copyTree\<close> writes, and the calls made.\<close>

record walk_state =
  ok :: bool
  calls :: "event list"

definition copyTree_fn :: "world \<Rightarrow> Site \<Rightarrow> path \<Rightarrow> error + FileInfo \<Rightarrow> walk_state
               \<Rightarrow> walk_result \<times> walk_state" where
  "copyTree_fn w s p arg st =
     (case arg of
        Inl err \<Rightarrow> (WalkErr err, st\<lparr>ok := False\<rparr>)
      | Inr info \<Rightarrow>
          (if IsDir info \<and> (Name info = ''posts'' \<or> Name info = ''templates'') then (SkipDir, st)
           else
             (case Rel (Source s) p of
                Inl err \<Rightarrow> (WalkErr err, st\<lparr>ok := False\<rparr>)
              | Inr rel \<Rightarrow>
                  (if HasPrefix (path_string rel) ''.'' \<or> Contains (path_string rel) ''/.''
                   then (WalkNil, st)
                   else
                     (let destName = Join (Path (Dest s) []) rel
                      in if IsDir info
                         then (WalkNil, st\<lparr>calls := calls st @ [Mkdir destName (Mode info)]\<rparr>)
                         else
                           (case copyFile w p destName of
                              (Some err, evs) \<Rightarrow>
                                (WalkErr err, st\<lparr>ok := False, calls := calls st @ evs\<rparr>)
                            | (None, evs) \<Rightarrow> (WalkNil, st\<lparr>calls := calls st @ evs\<rparr>)))))))"

definition copyTree :: "world \<Rightarrow> Site \<Rightarrow> unit result \<times> event list" where
  "copyTree w s =
     (case Walk (copyTree_fn w s) (Path (Source s) []) (fs w (Source s)) \<lparr>ok = True, calls = []\<rparr> of
        (r, st) \<Rightarrow>
          (if \<not> ok st then (Err (ErrorsNew ''error(s) copying source tree''), calls st)
           else (Ok (), calls st)))"

subsection \<open>generatePosts and Generate\<close>

text \<open>Lines 97 to 101: the directory and the file a post is written to.\<close>

definition post_dir :: "Site \<Rightarrow> Post \<Rightarrow> path" where
  "post_dir s post = (case dateParts post of (year, month) \<Rightarrow> Join (Path (Dest s) []) [year, month])"

definition post_file :: "Site \<Rightarrow> Post \<Rightarrow> path" where
  "post_file s post = Join (post_dir s post) [destFileName post]"

text \<open>
  The loop over the entries of the posts directory. The results of \<^verbatim>\<open>os.MkdirAll\<close> and of
  \<^verbatim>\<open>post.Generate\<close> are dropped by the code.
\<close>

fun generatePosts_loop :: "world \<Rightarrow> Site \<Rightarrow> path \<Rightarrow> template \<Rightarrow> FileInfo list \<Rightarrow> event list
               \<Rightarrow> unit result \<times> event list" where
  "generatePosts_loop w s postsDir tmpl [] evs = (Ok (), evs)"
| "generatePosts_loop w s postsDir tmpl (e # entries) evs =
     (if HasPrefix (Name e) ''.'' then generatePosts_loop w s postsDir tmpl entries evs
      else
        (case NewPostFromPath w (Join postsDir [Name e]) of
           Panic v \<Rightarrow> (Panic v, evs)
         | Err err \<Rightarrow> (Err err, evs)
         | Ok post \<Rightarrow>
             (let dir = post_dir s post;
                  f = post_file s post
              in case fault w OpCreate f of
                   Some err \<Rightarrow> (Err err, evs @ [MkdirAll dir 493, Create f])
                 | None \<Rightarrow>
                     (case Post_Generate w post tmpl of
                        (out, rerr) \<Rightarrow>
                          generatePosts_loop w s postsDir tmpl entries
                            (evs @ [MkdirAll dir 493, Create f, Write f out])))))"

definition generatePosts :: "world \<Rightarrow> Site \<Rightarrow> unit result \<times> event list" where
  "generatePosts w s =
     (let postsDir = Join (Path (Source s) []) [''posts''];
          tmplDir = Join (Path (Source s) []) [''templates'']
      in if \<not> exists_path w postsDir \<or> \<not> exists_path w tmplDir
         then (Err (ErrorsNew ''gossip: posts and templates directories must exist''), [])
         else
           (case ParseFiles w (Join tmplDir [''default.html'']) of
              Inl err \<Rightarrow> (Panic (PanicError err), [])
            | Inr tmpl \<Rightarrow>
                (case ReadDir w postsDir of
                   Inl err \<Rightarrow> (Err err, [])
                 | Inr entries \<Rightarrow> generatePosts_loop w s postsDir tmpl entries [])))"

definition Generate :: "world \<Rightarrow> Site \<Rightarrow> unit result \<times> event list" where
  "Generate w s =
     (case copyTree w s of
        (Ok u, evs) \<Rightarrow> (case generatePosts w s of (r, evs') \<Rightarrow> (r, evs @ evs'))
      | (r, evs) \<Rightarrow> (r, evs))"

section \<open>The copy walk, entry by entry\<close>

text \<open>
  The walk of \<open>copyTree\<close> described without the library's recursion: the entries in the
  order the walk reaches them (nothing below a directory named \<open>posts\<close> or \<open>templates\<close>,
  nothing below a directory that cannot be listed), the error an entry ends with, and
  the calls made on the destination for it.
\<close>

definition reserved :: "string \<Rightarrow> bool" where
  "reserved n = (n = ''posts'' \<or> n = ''templates'')"

definition filtered :: "string list \<Rightarrow> bool" where
  "filtered rel = (HasPrefix (path_string rel) ''.'' \<or> Contains (path_string rel) ''/.'')"

fun visits :: "string list \<Rightarrow> node \<Rightarrow> (string list \<times> node) list"
and visits_names :: "string list \<Rightarrow> node list \<Rightarrow> (string list \<times> node) list" where
  "visits rel (File n m t c) = [(rel, File n m t c)]"
| "visits rel (NoInfo n e) = [(rel, NoInfo n e)]"
| "visits rel (Dir n m t l cs) =
     (rel, Dir n m t l cs) # (if l \<noteq> None \<or> reserved n then [] else visits_names rel cs)"
| "visits_names rel [] = []"
| "visits_names rel (c # cs) = visits (rel @ [node_name c]) c @ visits_names rel cs"

fun entry_error :: "world \<Rightarrow> Site \<Rightarrow> string list \<times> node \<Rightarrow> error option" where
  "entry_error w s (rel, NoInfo n e) = Some e"
| "entry_error w s (rel, Dir n m t l cs) = l"
| "entry_error w s (rel, File n m t c) =
     (if filtered rel then None
      else fst (copyFile w (Path (Source s) rel) (Path (Dest s) rel)))"

fun entry_calls :: "world \<Rightarrow> Site \<Rightarrow> string list \<times> node \<Rightarrow> event list" where
  "entry_calls w s (rel, NoInfo n e) = []"
| "entry_calls w s (rel, Dir n m t l cs) =
     (if l \<noteq> None \<or> reserved n \<or> filtered rel then [] else [Mkdir (Path (Dest s) rel) m])"
| "entry_calls w s (rel, File n m t c) =
     (if filtered rel then []
      else snd (copyFile w (Path (Source s) rel) (Path (Dest s) rel)))"

definition entry_fails :: "world \<Rightarrow> Site \<Rightarrow> string list \<times> node \<Rightarrow> bool" where
  "entry_fails w s x = (entry_error w s x \<noteq> None)"

text \<open>The entries of a list up to and including the first bad one.\<close>

fun until_failure :: "('a \<Rightarrow> bool) \<Rightarrow> 'a list \<Rightarrow> 'a list" where
  "until_failure bad [] = []"
| "until_failure bad (x # xs) = (if bad x then [x] else x # until_failure bad xs)"

definition after :: "world \<Rightarrow> Site \<Rightarrow> (string list \<times> node) list \<Rightarrow> walk_state \<Rightarrow> walk_state" where
  "after w s xs st =
     \<lparr>ok = (ok st \<and> \<not> list_ex (entry_fails w s) xs),
      calls = calls st @ concat (map (entry_calls w s) (until_failure (entry_fails w s) xs))\<rparr>"

definition stopped :: "walk_result \<Rightarrow> bool" where
  "stopped r = (case r of WalkErr e \<Rightarrow> True | _ \<Rightarrow> False)"

fun event_path :: "event \<Rightarrow> path" where
  "event_path (Mkdir p m) = p"
| "event_path (MkdirAll p m) = p"
| "event_path (Create p) = p"
| "event_path (Chmod p m) = p"
| "event_path (Write p c) = p"

fun is_Mkdir :: "event \<Rightarrow> bool" where
  "is_Mkdir (Mkdir p m) = True"
| "is_Mkdir ev = False"

section \<open>Source trees to run the code on\<close>

text \<open>
  A site as the specification's end-to-end scenario has it (posts, the template, an
  image, hidden entries), and a posts directory whose entries have no registered
  extension or no extension at all.
\<close>

definition demo_time :: Time where
  "demo_time = \<lparr>Year = 2023, Month = July\<rparr>"

definition demo_tree :: node where
  "demo_tree =
     Dir ''src'' 493 demo_time None
       [File ''.gitignore'' 420 demo_time ''_site'',
        Dir ''images'' 493 demo_time None [File ''logo.png'' 420 demo_time ''PNG''],
        Dir ''posts'' 493 demo_time None
          [File ''foo.bar.md'' 420 demo_time ''text'', File ''hello.md'' 420 demo_time ''# Hi''],
        Dir ''sub'' 493 demo_time None
          [Dir ''.hidden'' 493 demo_time None [File ''file.txt'' 420 demo_time ''h'']],
        Dir ''templates'' 493 demo_time None
          [File ''default.html'' 420 demo_time ''<body>{{.Content}}</body>'']]"

definition demo_template :: template where
  "demo_template c = (''<body>'' @ c @ ''</body>'', None)"

definition demo_world :: world where
  "demo_world =
     \<lparr>fs = (\<lambda>b. demo_tree), fault = (\<lambda>opn p. None),
      MarkdownBasic = (\<lambda>x. ''<p>'' @ x @ ''</p>''),
      Parse = (\<lambda>text. Inr demo_template)\<rparr>"

definition demo_site :: Site where
  "demo_site = \<lparr>Source = ''src'', Dest = ''out''\<rparr>"

definition odd_tree :: node where
  "odd_tree =
     Dir ''src'' 493 demo_time None
       [Dir ''posts'' 493 demo_time None
          [File ''Makefile'' 420 demo_time ''all:'', File ''README.MD'' 420 demo_time ''# r'',
           File ''note.xyz'' 420 demo_time ''n''],
        Dir ''templates'' 493 demo_time None
          [File ''default.html'' 420 demo_time ''<body>{{.Content}}</body>'']]"

definition odd_world :: world where
  "odd_world = demo_world\<lparr>fs := (\<lambda>b. odd_tree)\<rparr>"

definition old_post :: Post where
  "old_post =
     \<lparr>content = ''x'', pubdate = \<lparr>Year = 999, Month = January\<rparr>, destFileName = ''a.html'',
      format = HTML,
      fileInfo = \<lparr>Name = ''a.html'', IsDir = False, Mode = 420,
                  ModTime = \<lparr>Year = 999, Month = January\<rparr>\<rparr>\<rparr>"

definition hello_post :: Post where
  "hello_post =
     \<lparr>content = ''# Hi'', pubdate = demo_time, destFileName = ''hello.html'', format = MARKDOWN,
      fileInfo = \<lparr>Name = ''hello.md'', IsDir = False, Mode = 420, ModTime = demo_time\<rparr>\<rparr>"

text \<open>A tree whose first file cannot be opened.\<close>

definition broken_tree :: node where
  "broken_tree =
     Dir ''src'' 493 demo_time None
       [File ''a.txt'' 420 demo_time ''a'', File ''b.txt'' 420 demo_time ''b'',
        Dir ''posts'' 493 demo_time None [File ''hello.md'' 420 demo_time ''# Hi''],
        Dir ''templates'' 493 demo_time None
          [File ''default.html'' 420 demo_time ''<body>{{.Content}}</body>'']]"

definition intact_world :: world where
  "intact_world = demo_world\<lparr>fs := (\<lambda>b. broken_tree)\<rparr>"

definition broken_world :: world where
  "broken_world =
     intact_world\<lparr>fault := (\<lambda>opn p.
        if opn = OpOpen \<and> p = Path ''src'' [''a.txt''] then Some ErrPermission else None)\<rparr>"

text \<open>A tree with no templates directory, and one where \<open>posts\<close> is a regular file.\<close>

definition bare_tree :: node where
  "bare_tree =
     Dir ''src'' 493 demo_time None
       [Dir ''posts'' 493 demo_time None [File ''hello.md'' 420 demo_time ''# Hi'']]"

definition bare_world :: world where
  "bare_world = demo_world\<lparr>fs := (\<lambda>b. bare_tree)\<rparr>"

definition flat_tree :: node where
  "flat_tree =
     Dir ''src'' 493 demo_time None
       [File ''posts'' 420 demo_time ''later'',
        Dir ''templates'' 493 demo_time None
          [File ''default.html'' 420 demo_time ''<body>{{.Content}}</body>'']]"

definition flat_world :: world where
  "flat_world = demo_world\<lparr>fs := (\<lambda>b. flat_tree)\<rparr>"

text \<open>A tree with no templates directory whose one file cannot be opened.\<close>

definition torn_tree :: node where
  "torn_tree =
     Dir ''src'' 493 demo_time None
       [File ''a.txt'' 420 demo_time ''a'',
        Dir ''posts'' 493 demo_time None [File ''hello.md'' 420 demo_time ''# Hi'']]"

definition torn_world :: world where
  "torn_world = broken_world\<lparr>fs := (\<lambda>b. torn_tree)\<rparr>"

text \<open>The demo site with a template that does not parse.\<close>

definition unparsed_world :: world where
  "unparsed_world = demo_world\<lparr>Parse := (\<lambda>text. Inl (TemplateError ''unexpected EOF''))\<rparr>"

text \<open>The demo site with a template whose execution fails on the first post.\<close>

definition picky_template :: template where
  "picky_template c =
     (if c = ''<p>text</p>'' then ([], Some (TemplateError ''exec''))
      else (''<body>'' @ c @ ''</body>'', None))"

definition picky_world :: world where
  "picky_world = demo_world\<lparr>Parse := (\<lambda>text. Inr picky_template)\<rparr>"

text \<open>A template with the error of its execution taken away.\<close>

definition mute :: "template \<Rightarrow> template" where
  "mute tmpl c = (fst (tmpl c), None)"

definition foo_post :: Post where
  "foo_post =
     \<lparr>content = ''text'', pubdate = demo_time, destFileName = ''foo.bar.html'',
      format = MARKDOWN,
      fileInfo = \<lparr>Name = ''foo.bar.md'', IsDir = False, Mode = 420, ModTime = demo_time\<rparr>\<rparr>"

section \<open>Strings: the last dot of a name\<close>

lemma HasPrefix_dot: "HasPrefix s ''.'' = (\<exists>t. s = CHR ''.'' # t)"
  by (cases s) (auto simp: HasPrefix_def)

lemma LastIndex_absent: "CHR ''.'' \<notin> set s \<Longrightarrow> LastIndex s ''.'' = - 1"
  by (induction s) (auto simp: Let_def HasPrefix_dot)

lemma LastIndex_last_dot:
  "CHR ''.'' \<notin> set ext \<Longrightarrow> LastIndex (stem @ CHR ''.'' # ext) ''.'' = int (length stem)"
proof (induction stem)
  case Nil
  then show ?case by (simp add: Let_def LastIndex_absent HasPrefix_dot)
next
  case (Cons c stem)
  then show ?case by (simp add: Let_def)
qed

lemma split_last_dot:
  "CHR ''.'' \<in> set s \<Longrightarrow> \<exists>stem ext. s = stem @ CHR ''.'' # ext \<and> CHR ''.'' \<notin> set ext"
  by (metis split_list_last)

lemma slice_to_stem: "slice_to (stem @ c # ext) (int (length stem)) = Some stem"
  by (simp add: slice_to_def)

lemma slice_from_ext: "slice_from (stem @ c # ext) (int (length stem) + 1) = Some ext"
proof -
  have "nat (int (length stem) + 1) = Suc (length stem)" by simp
  then show ?thesis by (simp add: slice_from_def)
qed

lemma formats_cases:
  "formats ext = (if ext = ''txt'' \<or> ext = ''md'' then Some MARKDOWN
                  else if ext = ''html'' then Some HTML else None)"
  by (simp add: formats_def)

section \<open>NewPostFromPath\<close>

lemma NewPostFromPath_dotted:
  assumes "os_Stat w p = Inr fi" and "ReadFile w p = Inr bytes"
    and "Name fi = stem @ CHR ''.'' # ext" and "CHR ''.'' \<notin> set ext"
  shows "NewPostFromPath w p =
           (case formats ext of
              None \<Rightarrow> Err (ErrorsNew (''unknown format '' @ ext))
            | Some f \<Rightarrow> Ok \<lparr>content = bytes, pubdate = ModTime fi,
                            destFileName = stem @ ''.html'', format = f, fileInfo = fi\<rparr>)"
  using assms
  by (simp add: NewPostFromPath_def Let_def LastIndex_last_dot slice_to_stem slice_from_ext
      split: option.splits)

lemma NewPostFromPath_undotted:
  assumes "os_Stat w p = Inr fi" and "ReadFile w p = Inr bytes"
    and "CHR ''.'' \<notin> set (Name fi)"
  shows "NewPostFromPath w p = Panic SliceBoundsOutOfRange"
  using assms
  by (simp add: NewPostFromPath_def Let_def LastIndex_absent slice_to_def)

text \<open>
  C3. The extension of a post file, the text after the last dot of its name, resolves to
  \<open>MARKDOWN\<close> for \<open>txt\<close> and \<open>md\<close> and to \<open>HTML\<close> for \<open>html\<close>, compared byte for byte; any
  other extension makes \<open>NewPostFromPath\<close> return the error \<open>unknown format\<close> followed by
  that extension.
\<close>

theorem format_resolution:
  assumes "os_Stat w p = Inr fi" and "ReadFile w p = Inr bytes"
    and "Name fi = stem @ CHR ''.'' # ext" and "CHR ''.'' \<notin> set ext"
  shows "(ext = ''txt'' \<or> ext = ''md'' \<longrightarrow>
            (\<exists>post. NewPostFromPath w p = Ok post \<and> format post = MARKDOWN)) \<and>
         (ext = ''html'' \<longrightarrow> (\<exists>post. NewPostFromPath w p = Ok post \<and> format post = HTML)) \<and>
         (ext \<noteq> ''txt'' \<and> ext \<noteq> ''md'' \<and> ext \<noteq> ''html'' \<longrightarrow>
            NewPostFromPath w p = Err (ErrorsNew (''unknown format '' @ ext)))"
  by (simp add: NewPostFromPath_dotted [OF assms] formats_cases)

theorem format_resolution_witness:
  "NewPostFromPath demo_world (Path ''src'' [''posts'', ''hello.md'']) =
     Ok \<lparr>content = ''# Hi'', pubdate = demo_time, destFileName = ''hello.html'',
         format = MARKDOWN,
         fileInfo = \<lparr>Name = ''hello.md'', IsDir = False, Mode = 420, ModTime = demo_time\<rparr>\<rparr> \<and>
   NewPostFromPath odd_world (Path ''src'' [''posts'', ''README.MD'']) =
     Err (ErrorsNew ''unknown format MD'')"
proof -
  let ?p = "Path ''src'' [''posts'', ''hello.md'']"
  let ?q = "Path ''src'' [''posts'', ''README.MD'']"
  let ?fi = "\<lparr>Name = ''hello.md'', IsDir = False, Mode = 420, ModTime = demo_time\<rparr>"
  let ?fj = "\<lparr>Name = ''README.MD'', IsDir = False, Mode = 420, ModTime = demo_time\<rparr>"
  have p1: "os_Stat demo_world ?p = Inr ?fi" by code_simp
  have p2: "ReadFile demo_world ?p = Inr ''# Hi''" by code_simp
  have p3: "Name ?fi = ''hello'' @ CHR ''.'' # ''md''" by simp
  have p4: "CHR ''.'' \<notin> set ''md''" by simp
  have q1: "os_Stat odd_world ?q = Inr ?fj" by code_simp
  have q2: "ReadFile odd_world ?q = Inr ''# r''" by code_simp
  have q3: "Name ?fj = ''README'' @ CHR ''.'' # ''MD''" by simp
  have q4: "CHR ''.'' \<notin> set ''MD''" by simp
  from format_resolution [OF p1 p2 p3 p4]
  obtain post where a: "NewPostFromPath demo_world ?p = Ok post" by auto
  have b: "NewPostFromPath demo_world ?p =
     Ok \<lparr>content = ''# Hi'', pubdate = demo_time, destFileName = ''hello.html'',
         format = MARKDOWN, fileInfo = ?fi\<rparr>" by code_simp
  from format_resolution [OF q1 q2 q3 q4]
  have c: "NewPostFromPath odd_world ?q = Err (ErrorsNew (''unknown format '' @ ''MD''))"
    by simp
  from b c show ?thesis by simp
qed

text \<open>
  C6. For a file name with a dot, \<open>NewPostFromPath\<close> splits the name at its last dot;
  the post it returns for a registered extension has the part before that dot followed by
  \<open>.html\<close> as its \<open>destFileName\<close>, whatever dots that part holds.
\<close>

theorem destFileName_replaces_last_extension:
  assumes "os_Stat w p = Inr fi" and "ReadFile w p = Inr bytes"
    and "CHR ''.'' \<in> set (Name fi)"
  shows "\<exists>stem ext. Name fi = stem @ ''.'' @ ext \<and> CHR ''.'' \<notin> set ext \<and>
           NewPostFromPath w p =
             (case formats ext of
                None \<Rightarrow> Err (ErrorsNew (''unknown format '' @ ext))
              | Some f \<Rightarrow> Ok \<lparr>content = bytes, pubdate = ModTime fi,
                              destFileName = stem @ ''.html'', format = f, fileInfo = fi\<rparr>)"
proof -
  from split_last_dot [OF assms(3)] obtain stem ext
    where n: "Name fi = stem @ CHR ''.'' # ext" and e: "CHR ''.'' \<notin> set ext" by blast
  from NewPostFromPath_dotted [OF assms(1) assms(2) n e] n e show ?thesis by auto
qed

theorem destFileName_replaces_last_extension_witness:
  "CHR ''.'' \<in> set ''foo.bar.md'' \<and>
   NewPostFromPath demo_world (Path ''src'' [''posts'', ''foo.bar.md'']) =
     Ok \<lparr>content = ''text'', pubdate = demo_time, destFileName = ''foo.bar.html'',
         format = MARKDOWN,
         fileInfo = \<lparr>Name = ''foo.bar.md'', IsDir = False, Mode = 420, ModTime = demo_time\<rparr>\<rparr> \<and>
   (\<exists>stem ext. ''foo.bar.md'' = stem @ ''.'' @ ext \<and> CHR ''.'' \<notin> set ext \<and>
      (case formats ext of None \<Rightarrow> False | Some f \<Rightarrow> ''foo.bar.html'' = stem @ ''.html''))"
proof -
  let ?p = "Path ''src'' [''posts'', ''foo.bar.md'']"
  let ?fi = "\<lparr>Name = ''foo.bar.md'', IsDir = False, Mode = 420, ModTime = demo_time\<rparr>"
  have p1: "os_Stat demo_world ?p = Inr ?fi" by code_simp
  have p2: "ReadFile demo_world ?p = Inr ''text''" by code_simp
  have p3: "CHR ''.'' \<in> set (Name ?fi)" by simp
  have v: "NewPostFromPath demo_world ?p =
     Ok \<lparr>content = ''text'', pubdate = demo_time, destFileName = ''foo.bar.html'',
         format = MARKDOWN, fileInfo = ?fi\<rparr>" by code_simp
  from destFileName_replaces_last_extension [OF p1 p2 p3] obtain stem ext
    where n: "Name ?fi = stem @ ''.'' @ ext" and e: "CHR ''.'' \<notin> set ext"
      and r: "NewPostFromPath demo_world ?p =
             (case formats ext of
                None \<Rightarrow> Err (ErrorsNew (''unknown format '' @ ext))
              | Some f \<Rightarrow> Ok \<lparr>content = ''text'', pubdate = ModTime ?fi,
                              destFileName = stem @ ''.html'', format = f, fileInfo = ?fi\<rparr>)"
    by blast
  from r v have "case formats ext of None \<Rightarrow> False | Some f \<Rightarrow> ''foo.bar.html'' = stem @ ''.html''"
    by (cases "formats ext") auto
  with n e have "\<exists>stem ext. ''foo.bar.md'' = stem @ ''.'' @ ext \<and> CHR ''.'' \<notin> set ext \<and>
      (case formats ext of None \<Rightarrow> False | Some f \<Rightarrow> ''foo.bar.html'' = stem @ ''.html'')"
    by auto
  with v show ?thesis by simp
qed

text \<open>
  C9. \<open>Convert\<close> with the \<open>HTML\<close> variant returns its input unchanged, whatever the
  markdown converter is.
\<close>

theorem Convert_HTML_identity: "Convert md HTML x = x"
  by (simp add: Convert_def)

text \<open>
  C10. Once the file has been read, the slice \<open>fi.Name()[:idx]\<close> is in bounds exactly when
  the base name holds a dot: with one, \<open>NewPostFromPath\<close> does not panic; with none, the
  index is -1 and the call panics (slice bounds out of range) instead of returning an
  error.
\<close>

theorem NewPostFromPath_panics_without_dot:
  assumes "os_Stat w p = Inr fi" and "ReadFile w p = Inr bytes"
  shows "(slice_to (Name fi) (LastIndex (Name fi) ''.'') = None) = (CHR ''.'' \<notin> set (Name fi)) \<and>
         (CHR ''.'' \<notin> set (Name fi) \<longrightarrow> NewPostFromPath w p = Panic SliceBoundsOutOfRange) \<and>
         (CHR ''.'' \<in> set (Name fi) \<longrightarrow> (\<forall>v. NewPostFromPath w p \<noteq> Panic v))"
proof (cases "CHR ''.'' \<in> set (Name fi)")
  case True
  from split_last_dot [OF True] obtain stem ext
    where n: "Name fi = stem @ CHR ''.'' # ext" and e: "CHR ''.'' \<notin> set ext" by blast
  have "slice_to (Name fi) (LastIndex (Name fi) ''.'') = Some stem"
    by (simp add: n LastIndex_last_dot [OF e] slice_to_stem)
  moreover have "\<forall>v. NewPostFromPath w p \<noteq> Panic v"
    by (simp add: NewPostFromPath_dotted [OF assms n e] split: option.splits)
  ultimately show ?thesis using True by simp
next
  case False
  then have "slice_to (Name fi) (LastIndex (Name fi) ''.'') = None"
    by (simp add: LastIndex_absent slice_to_def)
  with False NewPostFromPath_undotted [OF assms False] show ?thesis by simp
qed

theorem NewPostFromPath_panics_without_dot_witness:
  "NewPostFromPath odd_world (Path ''src'' [''posts'', ''Makefile'']) = Panic SliceBoundsOutOfRange \<and>
   CHR ''.'' \<notin> set ''Makefile''"
proof -
  let ?p = "Path ''src'' [''posts'', ''Makefile'']"
  let ?fi = "\<lparr>Name = ''Makefile'', IsDir = False, Mode = 420, ModTime = demo_time\<rparr>"
  have p1: "os_Stat odd_world ?p = Inr ?fi" by code_simp
  have p2: "ReadFile odd_world ?p = Inr ''all:''" by code_simp
  from NewPostFromPath_panics_without_dot [OF p1 p2] show ?thesis by simp
qed

section \<open>dateParts and the output path\<close>

lemma digit_char_is_digit: "d < 10 \<Longrightarrow> is_digit (digit_char d)"
proof -
  assume "d < 10"
  then have "d \<in> {0, 1, 2, 3, 4, 5, 6, 7, 8, 9}" by auto
  then show ?thesis by (auto simp: is_digit_def digit_char_def)
qed

lemma digits_all_digits: "list_all is_digit (digits n)"
proof (induction n rule: digits.induct)
  case (1 n)
  show ?case
  proof (cases "n < 10")
    case True
    then show ?thesis by (simp add: digits.simps [of n] digit_char_is_digit)
  next
    case False
    with 1 show ?thesis by (simp add: digits.simps [of n] digit_char_is_digit)
  qed
qed

lemma length_digits_1: "n < 10 \<Longrightarrow> length (digits n) = 1"
  by (simp add: digits.simps [of n])

lemma length_digits_2: "10 \<le> n \<Longrightarrow> n < 100 \<Longrightarrow> length (digits n) = 2"
  by (simp add: digits.simps [of n] length_digits_1)

lemma length_digits_3: "100 \<le> n \<Longrightarrow> n < 1000 \<Longrightarrow> length (digits n) = 3"
  by (simp add: digits.simps [of n] length_digits_2)

lemma length_digits_4: "1000 \<le> n \<Longrightarrow> n < 10000 \<Longrightarrow> length (digits n) = 4"
  by (simp add: digits.simps [of n] length_digits_3)

lemma year_four_digits:
  assumes "1000 \<le> y" and "y \<le> 9999"
  shows "length (Sprintf_d y) = 4 \<and> list_all is_digit (Sprintf_d y)"
proof -
  have "1000 \<le> nat y" and "nat y < 10000" using assms by auto
  then have "length (digits (nat y)) = 4" by (rule length_digits_4)
  then show ?thesis using assms by (simp add: Sprintf_d_def digits_all_digits)
qed

lemma month_two_digits:
  "Sprintf_02d (month_number m) =
     [digit_char (nat (month_number m) div 10), digit_char (nat (month_number m) mod 10)]"
  by (cases m) (simp_all add: Sprintf_02d_def zero_pad_def digits.simps digit_char_def)

lemma month_all_digits: "list_all is_digit (Sprintf_02d (month_number m))"
  by (cases m)
    (simp_all add: Sprintf_02d_def zero_pad_def digits.simps is_digit_def digit_char_def)

lemma post_file_eq:
  "post_file s p = Path (Dest s) [fst (dateParts p), snd (dateParts p), destFileName p]"
  by (simp add: post_file_def post_dir_def dateParts_def)

text \<open>
  C5, as the code has it. The file of a post is
  \<^verbatim>\<open>dest/<year>/<month>/<destFileName>\<close>, where both components are computed from
  \<open>pubdate\<close> alone: the month is two decimal digits, zero-padded; the year is the
  decimal rendering of \<open>Year()\<close>, which is four digits when the year lies between 1000
  and 9999.
\<close>

theorem post_file_year_month:
  "post_file s p = Path (Dest s) [fst (dateParts p), snd (dateParts p), destFileName p] \<and>
   fst (dateParts p) = Sprintf_d (Year (pubdate p)) \<and>
   snd (dateParts p) =
     [digit_char (nat (month_number (Month (pubdate p))) div 10),
      digit_char (nat (month_number (Month (pubdate p))) mod 10)] \<and>
   list_all is_digit (snd (dateParts p)) \<and>
   (1000 \<le> Year (pubdate p) \<and> Year (pubdate p) \<le> 9999 \<longrightarrow>
      length (fst (dateParts p)) = 4 \<and> list_all is_digit (fst (dateParts p)))"
proof -
  have "snd (dateParts p) =
     [digit_char (nat (month_number (Month (pubdate p))) div 10),
      digit_char (nat (month_number (Month (pubdate p))) mod 10)]"
    by (simp add: dateParts_def month_two_digits)
  moreover have "list_all is_digit (snd (dateParts p))"
    by (simp add: dateParts_def month_all_digits)
  moreover have "1000 \<le> Year (pubdate p) \<and> Year (pubdate p) \<le> 9999 \<longrightarrow>
      length (fst (dateParts p)) = 4 \<and> list_all is_digit (fst (dateParts p))"
    using year_four_digits [of "Year (pubdate p)"] by (simp add: dateParts_def)
  moreover have "fst (dateParts p) = Sprintf_d (Year (pubdate p))"
    by (simp add: dateParts_def)
  ultimately show ?thesis using post_file_eq [of s p] by blast
qed

theorem post_file_year_month_witness:
  "(1000::int) \<le> 2023 \<and> (2023::int) \<le> 9999 \<and>
   post_file demo_site hello_post = Path ''out'' [''2023'', ''07'', ''hello.html''] \<and>
   length (fst (dateParts hello_post)) = 4 \<and> list_all is_digit (fst (dateParts hello_post))"
proof -
  have y: "1000 \<le> Year (pubdate hello_post) \<and> Year (pubdate hello_post) \<le> 9999"
    by (simp add: hello_post_def demo_time_def)
  have d: "dateParts hello_post = (''2023'', ''07'')" by code_simp
  have n: "destFileName hello_post = ''hello.html''" by (simp add: hello_post_def)
  have s: "Dest demo_site = ''out''" by (simp add: demo_site_def)
  from post_file_year_month [of demo_site hello_post] y
  have "post_file demo_site hello_post =
          Path (Dest demo_site) [fst (dateParts hello_post), snd (dateParts hello_post),
            destFileName hello_post]"
    and "length (fst (dateParts hello_post)) = 4 \<and> list_all is_digit (fst (dateParts hello_post))"
    by blast+
  then show ?thesis by (simp add: d n s)
qed

text \<open>
  C5 as stated fails: a file last modified in the year 999 is written below a
  three-digit directory.
\<close>

theorem post_file_year_999:
  "post_file demo_site old_post = Path ''out'' [''999'', ''01'', ''a.html''] \<and>
   length (fst (dateParts old_post)) = 3"
  by code_simp

section \<open>copyTree: the walk stops at the first failure\<close>

lemma until_failure_append:
  "until_failure bad (xs @ ys) =
     (if list_ex bad xs then until_failure bad xs else xs @ until_failure bad ys)"
  by (induction xs) auto

lemma until_failure_none: "\<not> list_ex bad xs \<Longrightarrow> until_failure bad xs = xs"
  by (induction xs) auto

lemma after_Nil: "after w s [] st = st"
  by (simp add: after_def)

lemma after_append_ok:
  "\<not> list_ex (entry_fails w s) xs \<Longrightarrow> after w s (xs @ ys) st = after w s ys (after w s xs st)"
  by (simp add: after_def until_failure_append until_failure_none)

lemma after_append_failed:
  "list_ex (entry_fails w s) xs \<Longrightarrow> after w s (xs @ ys) st = after w s xs st"
  by (simp add: after_def until_failure_append)

lemma step_err: "copyTree_fn w s p (Inl e) st = (WalkErr e, st\<lparr>ok := False\<rparr>)"
  by (simp add: copyTree_fn_def)

lemma step_dir:
  "copyTree_fn w s (Path (Source s) rel)
       (Inr \<lparr>Name = n, IsDir = True, Mode = m, ModTime = t\<rparr>) st =
     (if reserved n then (SkipDir, st)
      else (WalkNil, st\<lparr>calls := calls st @
              (if filtered rel then [] else [Mkdir (Path (Dest s) rel) m])\<rparr>))"
  by (simp add: copyTree_fn_def reserved_def filtered_def)

lemma step_file:
  "copyTree_fn w s (Path (Source s) rel)
       (Inr \<lparr>Name = n, IsDir = False, Mode = m, ModTime = t\<rparr>) st =
     (if filtered rel then (WalkNil, st)
      else (case copyFile w (Path (Source s) rel) (Path (Dest s) rel) of
              (Some err, evs) \<Rightarrow> (WalkErr err, st\<lparr>ok := False, calls := calls st @ evs\<rparr>)
            | (None, evs) \<Rightarrow> (WalkNil, st\<lparr>calls := calls st @ evs\<rparr>)))"
  by (simp add: copyTree_fn_def filtered_def)

lemma walk_file:
  "walk (copyTree_fn w s) (Path (Source s) rel) (File n m t c) st = (r, st') \<Longrightarrow>
     st' = after w s [(rel, File n m t c)] st \<and>
     stopped r = entry_fails w s (rel, File n m t c) \<and> r \<noteq> SkipDir"
  by (auto simp: step_file after_def entry_fails_def stopped_def
      split: if_splits prod.splits option.splits)

lemma walk_noinfo:
  "walk (copyTree_fn w s) (Path (Source s) rel) (NoInfo n e) st = (r, st') \<Longrightarrow>
     st' = after w s [(rel, NoInfo n e)] st \<and>
     stopped r = entry_fails w s (rel, NoInfo n e) \<and> r \<noteq> SkipDir"
  by (auto simp: step_err after_def entry_fails_def stopped_def)

lemma walk_refines:
  "walk (copyTree_fn w s) (Path (Source s) rel) nd st = (r, st') \<Longrightarrow>
     st' = after w s (visits rel nd) st \<and>
     stopped r = list_ex (entry_fails w s) (visits rel nd) \<and>
     (r = SkipDir \<longrightarrow> node_is_dir nd)"
  and walk_names_refines:
  "walk_names (copyTree_fn w s) (Path (Source s) rel) cs st = (r, st') \<Longrightarrow>
     st' = after w s (visits_names rel cs) st \<and>
     stopped r = list_ex (entry_fails w s) (visits_names rel cs) \<and>
     r \<noteq> SkipDir"
proof (induction rel nd and rel cs arbitrary: st r st' and st r st' rule: visits_visits_names.induct)
  case (1 rel n m t c)
  from walk_file [OF 1] show ?case by simp
next
  case (2 rel n e)
  from walk_noinfo [OF 2] show ?case by simp
next
  case (3 rel n m t l cs)
  show ?case
  proof (cases l)
    case (Some err)
    with 3(2) show ?thesis
      by (auto simp: step_err after_def entry_fails_def stopped_def)
  next
    case None
    show ?thesis
    proof (cases "reserved n")
      case True
      with None 3(2) show ?thesis
        by (auto simp: step_dir after_def entry_fails_def stopped_def)
    next
      case False
      let ?st1 = "st\<lparr>calls := calls st @
              (if filtered rel then [] else [Mkdir (Path (Dest s) rel) m])\<rparr>"
      from None False 3(2)
      have w: "walk_names (copyTree_fn w s) (Path (Source s) rel) cs ?st1 = (r, st')"
        by (simp add: step_dir)
      from None False have "\<not> (l \<noteq> None \<or> reserved n)" by simp
      from 3(1) [OF this w]
      have a: "st' = after w s (visits_names rel cs) ?st1"
        and b: "stopped r = list_ex (entry_fails w s) (visits_names rel cs)"
        and c: "r \<noteq> SkipDir" by simp_all
      have nf: "\<not> entry_fails w s (rel, Dir n m t l cs)"
        using None by (simp add: entry_fails_def)
      have "?st1 = after w s [(rel, Dir n m t l cs)] st"
        using None False by (simp add: after_def entry_fails_def)
      with a nf have "st' = after w s (visits rel (Dir n m t l cs)) st"
        using None False after_append_ok [of w s "[(rel, Dir n m t l cs)]" "visits_names rel cs" st]
        by simp
      with b c nf None False show ?thesis by simp
    qed
  qed
next
  case (4 rel)
  then show ?case by (simp add: after_Nil stopped_def)
next
  case (5 rel c cs)
  let ?F = "copyTree_fn w s"
  let ?p = "Path (Source s) rel"
  let ?q = "Path (Source s) (rel @ [node_name c])"
  obtain r1 st1 where w1: "walk ?F ?q c st = (r1, st1)" by (cases "walk ?F ?q c st")
  from 5(1) [OF w1]
  have a1: "st1 = after w s (visits (rel @ [node_name c]) c) st"
    and b1: "stopped r1 = list_ex (entry_fails w s) (visits (rel @ [node_name c]) c)"
    and c1: "r1 = SkipDir \<longrightarrow> node_is_dir c" by simp_all
  show ?case
  proof (cases "stopped r1")
    case True
    then obtain e where r1: "r1 = WalkErr e" by (cases r1) (simp_all add: stopped_def)
    have "walk_names ?F ?p (c # cs) st = (r1, st1)"
    proof (cases c)
      case (File n m t x)
      with w1 r1 show ?thesis by simp
    next
      case (Dir n m t l xs)
      with w1 r1 show ?thesis by simp
    next
      case (NoInfo n err)
      with w1 r1 show ?thesis by (simp add: step_err)
    qed
    with 5(3) have "r = r1" and "st' = st1" by simp_all
    with True a1 b1 r1 show ?thesis
      by (simp add: after_append_failed stopped_def)
  next
    case False
    have cont: "walk_names ?F ?p (c # cs) st = walk_names ?F ?p cs st1"
    proof (cases c)
      case (File n m t x)
      with w1 False c1 show ?thesis by (cases r1) (simp_all add: stopped_def)
    next
      case (Dir n m t l xs)
      with w1 False show ?thesis by (cases r1) (simp_all add: stopped_def)
    next
      case (NoInfo n err)
      with w1 False show ?thesis by (auto simp: step_err stopped_def)
    qed
    with 5(3) have "walk_names ?F ?p cs st1 = (r, st')" by simp
    from 5(2) [OF this]
    have a2: "st' = after w s (visits_names rel cs) st1"
      and b2: "stopped r = list_ex (entry_fails w s) (visits_names rel cs)"
      and c2: "r \<noteq> SkipDir" by simp_all
    from False b1 have nf: "\<not> list_ex (entry_fails w s) (visits (rel @ [node_name c]) c)" by simp
    from a1 a2 after_append_ok [OF nf]
    have "st' = after w s (visits_names rel (c # cs)) st" by simp
    with b2 c2 nf show ?thesis by simp
  qed
qed

lemma copyTree_eq:
  "copyTree w s =
     (if list_ex (entry_fails w s) (visits [] (fs w (Source s)))
      then Err (ErrorsNew ''error(s) copying source tree'') else Ok (),
      concat (map (entry_calls w s)
        (until_failure (entry_fails w s) (visits [] (fs w (Source s))))))"
proof -
  let ?st = "\<lparr>ok = True, calls = []\<rparr>"
  obtain r st' where w: "walk (copyTree_fn w s) (Path (Source s) []) (fs w (Source s)) ?st = (r, st')"
    by (cases "walk (copyTree_fn w s) (Path (Source s) []) (fs w (Source s)) ?st")
  from walk_refines [OF w] have a: "st' = after w s (visits [] (fs w (Source s))) ?st" by simp
  have "copyTree w s =
      (if \<not> ok st' then (Err (ErrorsNew ''error(s) copying source tree''), calls st')
       else (Ok (), calls st'))"
    using w by (cases r) (simp_all add: copyTree_def Walk_def)
  then show ?thesis by (simp add: a after_def)
qed

lemma Contains_prefix: "HasPrefix t sub \<Longrightarrow> Contains t sub"
  by (cases t) (auto simp: HasPrefix_def)

lemma Contains_append: "Contains t sub \<Longrightarrow> Contains (u @ t) sub"
  by (induction u) auto

lemma filtered_hidden: "e \<in> set rel \<Longrightarrow> HasPrefix e ''.'' \<Longrightarrow> filtered rel"
proof (induction rel rule: path_string.induct)
  case 1
  then show ?case by simp
next
  case (2 x)
  then show ?case by (simp add: filtered_def)
next
  case (3 x y ys)
  show ?case
  proof (cases "e = x")
    case True
    with 3(3) show ?thesis by (auto simp: filtered_def HasPrefix_dot)
  next
    case False
    with 3(2) have "e \<in> set (y # ys)" by simp
    from 3(1) [OF this 3(3)] have "filtered (y # ys)" .
    then have "Contains (''/'' @ path_string (y # ys)) ''/.''"
    proof (unfold filtered_def, elim disjE)
      assume "HasPrefix (path_string (y # ys)) ''.''"
      then obtain t where "path_string (y # ys) = CHR ''.'' # t" by (auto simp: HasPrefix_dot)
      then show ?thesis by (simp add: HasPrefix_def)
    next
      assume "Contains (path_string (y # ys)) ''/.''"
      then show ?thesis by (rule Contains_append)
    qed
    then have "Contains (x @ ''/'' @ path_string (y # ys)) ''/.''" by (rule Contains_append)
    then show ?thesis by (simp add: filtered_def)
  qed
qed

lemma filtered_root: "filtered []"
  by (simp add: filtered_def HasPrefix_def)

lemma visits_below:
  "(rel', nd') \<in> set (visits rel nd) \<Longrightarrow>
     (rel' = rel \<and> nd' = nd) \<or>
     (\<exists>sfx. rel' = rel @ sfx \<and> sfx \<noteq> [] \<and> \<not> reserved (node_name nd) \<and>
        (\<forall>e \<in> set (butlast sfx). \<not> reserved e) \<and> last sfx = node_name nd')"
  and visits_names_below:
  "(rel', nd') \<in> set (visits_names rel cs) \<Longrightarrow>
     (\<exists>sfx. rel' = rel @ sfx \<and> sfx \<noteq> [] \<and>
        (\<forall>e \<in> set (butlast sfx). \<not> reserved e) \<and> last sfx = node_name nd')"
proof (induction rel nd and rel cs rule: visits_visits_names.induct)
  case (1 rel n m t c)
  then show ?case by simp
next
  case (2 rel n e)
  then show ?case by simp
next
  case (3 rel n m t l cs)
  show ?case
  proof (cases "(rel', nd') = (rel, Dir n m t l cs)")
    case True
    then show ?thesis by simp
  next
    case False
    with 3(2) have d: "\<not> (l \<noteq> None \<or> reserved n)" and m: "(rel', nd') \<in> set (visits_names rel cs)"
      by (auto split: if_splits)
    from 3(1) [OF d m] d show ?thesis by auto
  qed
next
  case (4 rel)
  then show ?case by simp
next
  case (5 rel c cs)
  from 5(3) consider "(rel', nd') \<in> set (visits (rel @ [node_name c]) c)"
    | "(rel', nd') \<in> set (visits_names rel cs)" by auto
  then show ?case
  proof cases
    case 1
    from 5(1) [OF 1] show ?thesis
    proof (elim disjE exE conjE)
      assume "rel' = rel @ [node_name c]" and "nd' = c"
      then show ?thesis by (intro exI [of _ "[node_name c]"]) simp
    next
      fix sfx
      assume a: "rel' = (rel @ [node_name c]) @ sfx" "sfx \<noteq> []" "\<not> reserved (node_name c)"
        "\<forall>e \<in> set (butlast sfx). \<not> reserved e" "last sfx = node_name nd'"
      then show ?thesis
        by (intro exI [of _ "node_name c # sfx"]) (auto simp: butlast_append)
    qed
  next
    case 2
    from 5(2) [OF 2] show ?thesis .
  qed
qed

lemma entry_calls_path:
  assumes "ev \<in> set (entry_calls w s (rel, nd))"
  shows "event_path ev = Path (Dest s) rel \<and> \<not> filtered rel \<and>
         (is_Mkdir ev \<longrightarrow> \<not> reserved (node_name nd))"
proof (cases nd)
  case (File n m t c)
  with assms have nf: "\<not> filtered rel"
    and m: "ev \<in> set (snd (copyFile w (Path (Source s) rel) (Path (Dest s) rel)))"
    by (auto split: if_splits)
  from m have "event_path ev = Path (Dest s) rel \<and> \<not> is_Mkdir ev"
    by (auto simp: copyFile_def io_Copy_def split: sum.splits option.splits node.splits)
  with nf show ?thesis by simp
next
  case (Dir n m t l cs)
  with assms show ?thesis by (auto split: if_splits)
next
  case (NoInfo n e)
  with assms show ?thesis by simp
qed

lemma set_until_failure: "set (until_failure bad xs) \<subseteq> set xs"
  by (induction xs) auto

text \<open>
  C2, as the code has it. \<open>copyTree\<close> returns its one error exactly when some entry of
  the walk fails (its \<^verbatim>\<open>lstat\<close> or its listing fails, or \<open>copyFile\<close> fails on it: open,
  create, stat or copy). The failure is recorded and ends the walk: the calls made are
  those of the entries up to and including the first failing one, and no later entry is
  attempted. The dropped results of \<^verbatim>\<open>os.Mkdir\<close> and \<^verbatim>\<open>dest.Chmod\<close> fail nothing.
\<close>

theorem copyTree_stops_at_first_failure:
  "copyTree w s =
     (if list_ex (entry_fails w s) (visits [] (fs w (Source s)))
      then Err (ErrorsNew ''error(s) copying source tree'') else Ok (),
      concat (map (entry_calls w s)
        (until_failure (entry_fails w s) (visits [] (fs w (Source s))))))"
  by (rule copyTree_eq)

theorem copyTree_stops_at_first_failure_witness:
  "until_failure (entry_fails broken_world demo_site) (visits [] (fs broken_world (Source demo_site))) =
     [([], broken_tree), ([''a.txt''], File ''a.txt'' 420 demo_time ''a'')] \<and>
   entry_error broken_world demo_site ([''a.txt''], File ''a.txt'' 420 demo_time ''a'') =
     Some ErrPermission \<and>
   copyTree broken_world demo_site = (Err (ErrorsNew ''error(s) copying source tree''), [])"
proof -
  have a: "until_failure (entry_fails broken_world demo_site)
             (visits [] (fs broken_world (Source demo_site))) =
           [([], broken_tree), ([''a.txt''], File ''a.txt'' 420 demo_time ''a'')]"
    by code_simp
  have b: "list_ex (entry_fails broken_world demo_site)
             (visits [] (fs broken_world (Source demo_site)))"
    by code_simp
  have c: "entry_error broken_world demo_site ([''a.txt''], File ''a.txt'' 420 demo_time ''a'') =
     Some ErrPermission" by code_simp
  have d: "concat (map (entry_calls broken_world demo_site)
             [([], broken_tree), ([''a.txt''], File ''a.txt'' 420 demo_time ''a'')]) = []"
    by code_simp
  from copyTree_stops_at_first_failure [of broken_world demo_site] a b c d
  show ?thesis by simp
qed

text \<open>
  C2 as stated fails: the first file of the tree cannot be opened, and the second,
  which the same walk copies when nothing fails, is not attempted.
\<close>

theorem copyTree_abandons_later_entries:
  "copyTree broken_world demo_site = (Err (ErrorsNew ''error(s) copying source tree''), []) \<and>
   copyTree intact_world demo_site =
     (Ok (),
      [Create (Path ''out'' [''a.txt'']), Chmod (Path ''out'' [''a.txt'']) 420,
       Write (Path ''out'' [''a.txt'']) ''a'',
       Create (Path ''out'' [''b.txt'']), Chmod (Path ''out'' [''b.txt'']) 420,
       Write (Path ''out'' [''b.txt'']) ''b''])"
  by code_simp

text \<open>
  C4. Every call that \<open>copyTree\<close> makes on the destination names a path below
  \<^verbatim>\<open>s.Dest\<close> none of whose elements begins with a dot and none of whose directories
  above the entry is named \<open>posts\<close> or \<open>templates\<close>; a directory it creates is not named
  so either. The destination root itself is never created.
\<close>

theorem copyTree_creates_nothing_hidden_or_reserved:
  "\<forall>ev \<in> set (snd (copyTree w s)).
     \<exists>rel. event_path ev = Path (Dest s) rel \<and> rel \<noteq> [] \<and>
       (\<forall>e \<in> set rel. \<not> HasPrefix e ''.'') \<and>
       (\<forall>e \<in> set (butlast rel). e \<noteq> ''posts'' \<and> e \<noteq> ''templates'') \<and>
       (is_Mkdir ev \<longrightarrow> last rel \<noteq> ''posts'' \<and> last rel \<noteq> ''templates'')"
proof
  fix ev
  assume "ev \<in> set (snd (copyTree w s))"
  then obtain x where x: "x \<in> set (visits [] (fs w (Source s)))"
    and ev: "ev \<in> set (entry_calls w s x)"
    using set_until_failure [of "entry_fails w s" "visits [] (fs w (Source s))"]
    by (auto simp: copyTree_eq)
  obtain rel nd where xe: "x = (rel, nd)" by (cases x)
  from entry_calls_path [OF ev [unfolded xe]]
  have p: "event_path ev = Path (Dest s) rel" and nf: "\<not> filtered rel"
    and mk: "is_Mkdir ev \<longrightarrow> \<not> reserved (node_name nd)" by simp_all
  from nf filtered_root have ne: "rel \<noteq> []" by auto
  from nf have hid: "\<forall>e \<in> set rel. \<not> HasPrefix e ''.''" using filtered_hidden by blast
  from visits_below [OF x [unfolded xe]] ne
  have "(\<forall>e \<in> set (butlast rel). \<not> reserved e) \<and> last rel = node_name nd" by auto
  with mk have "(\<forall>e \<in> set (butlast rel). e \<noteq> ''posts'' \<and> e \<noteq> ''templates'') \<and>
       (is_Mkdir ev \<longrightarrow> last rel \<noteq> ''posts'' \<and> last rel \<noteq> ''templates'')"
    by (auto simp: reserved_def)
  with p ne hid show "\<exists>rel. event_path ev = Path (Dest s) rel \<and> rel \<noteq> [] \<and>
       (\<forall>e \<in> set rel. \<not> HasPrefix e ''.'') \<and>
       (\<forall>e \<in> set (butlast rel). e \<noteq> ''posts'' \<and> e \<noteq> ''templates'') \<and>
       (is_Mkdir ev \<longrightarrow> last rel \<noteq> ''posts'' \<and> last rel \<noteq> ''templates'')"
    by blast
qed

theorem copyTree_creates_nothing_hidden_or_reserved_witness:
  "snd (copyTree demo_world demo_site) =
     [Mkdir (Path ''out'' [''images'']) 493,
      Create (Path ''out'' [''images'', ''logo.png'']),
      Chmod (Path ''out'' [''images'', ''logo.png'']) 420,
      Write (Path ''out'' [''images'', ''logo.png'']) ''PNG'',
      Mkdir (Path ''out'' [''sub'']) 493] \<and>
   (\<exists>rel. Path ''out'' [''images'', ''logo.png''] = Path ''out'' rel \<and> rel \<noteq> [] \<and>
      (\<forall>e \<in> set rel. \<not> HasPrefix e ''.'') \<and>
      (\<forall>e \<in> set (butlast rel). e \<noteq> ''posts'' \<and> e \<noteq> ''templates''))"
proof -
  let ?ev = "Create (Path ''out'' [''images'', ''logo.png''])"
  have a: "snd (copyTree demo_world demo_site) =
     [Mkdir (Path ''out'' [''images'']) 493,
      Create (Path ''out'' [''images'', ''logo.png'']),
      Chmod (Path ''out'' [''images'', ''logo.png'']) 420,
      Write (Path ''out'' [''images'', ''logo.png'']) ''PNG'',
      Mkdir (Path ''out'' [''sub'']) 493]" by code_simp
  then have m: "?ev \<in> set (snd (copyTree demo_world demo_site))" by simp
  have d: "Dest demo_site = ''out''" by (simp add: demo_site_def)
  from copyTree_creates_nothing_hidden_or_reserved [of demo_world demo_site] m
  have "\<exists>rel. event_path ?ev = Path (Dest demo_site) rel \<and> rel \<noteq> [] \<and>
       (\<forall>e \<in> set rel. \<not> HasPrefix e ''.'') \<and>
       (\<forall>e \<in> set (butlast rel). e \<noteq> ''posts'' \<and> e \<noteq> ''templates'') \<and>
       (is_Mkdir ?ev \<longrightarrow> last rel \<noteq> ''posts'' \<and> last rel \<noteq> ''templates'')"
    by (rule bspec)
  then have "\<exists>rel. Path ''out'' [''images'', ''logo.png''] = Path ''out'' rel \<and> rel \<noteq> [] \<and>
      (\<forall>e \<in> set rel. \<not> HasPrefix e ''.'') \<and>
      (\<forall>e \<in> set (butlast rel). e \<noteq> ''posts'' \<and> e \<noteq> ''templates'')"
    by (simp add: d)
  with a show ?thesis by simp
qed

section \<open>generatePosts and Generate\<close>

lemma Generate_after_copy:
  "fst (copyTree w s) = Ok () \<Longrightarrow>
     Generate w s = (fst (generatePosts w s), snd (copyTree w s) @ snd (generatePosts w s))"
  by (cases "copyTree w s"; cases "generatePosts w s") (simp add: Generate_def)

lemma exists_path_iff: "exists_path w p = (os_Stat w p \<noteq> Inl ErrNotExist)"
  by (simp add: exists_path_def IsNotExist_def split: sum.splits)

text \<open>
  C7, as the code has it. Once the tree copy has succeeded, \<open>Generate\<close> returns the error
  that the posts and templates directories must exist, with no call made for any post,
  whenever \<^verbatim>\<open>os.Stat\<close> reports that \<^verbatim>\<open>source/posts\<close> or \<^verbatim>\<open>source/templates\<close> does not
  exist. The check is \<open>exists\<close>: a name that is there but is no directory passes it.
\<close>

theorem Generate_missing_directory:
  assumes "fst (copyTree w s) = Ok ()"
    and "os_Stat w (Path (Source s) [''posts'']) = Inl ErrNotExist \<or>
         os_Stat w (Path (Source s) [''templates'']) = Inl ErrNotExist"
  shows "Generate w s =
           (Err (ErrorsNew ''gossip: posts and templates directories must exist''),
            snd (copyTree w s))"
proof -
  from assms(2)
  have "\<not> exists_path w (Path (Source s) [''posts'']) \<or>
        \<not> exists_path w (Path (Source s) [''templates''])"
    by (simp add: exists_path_iff)
  then have "generatePosts w s =
      (Err (ErrorsNew ''gossip: posts and templates directories must exist''), [])"
    by (auto simp: generatePosts_def Let_def)
  with Generate_after_copy [OF assms(1)] show ?thesis by simp
qed

theorem Generate_missing_directory_witness:
  "fst (copyTree bare_world demo_site) = Ok () \<and>
   os_Stat bare_world (Path ''src'' [''templates'']) = Inl ErrNotExist \<and>
   Generate bare_world demo_site =
     (Err (ErrorsNew ''gossip: posts and templates directories must exist''), [])"
proof -
  have a: "fst (copyTree bare_world demo_site) = Ok ()" by code_simp
  have b: "os_Stat bare_world (Path (Source demo_site) [''templates'']) = Inl ErrNotExist"
    by code_simp
  have c: "snd (copyTree bare_world demo_site) = []" by code_simp
  have d: "Source demo_site = ''src''" by (simp add: demo_site_def)
  from b have "os_Stat bare_world (Path (Source demo_site) [''posts'']) = Inl ErrNotExist \<or>
         os_Stat bare_world (Path (Source demo_site) [''templates'']) = Inl ErrNotExist" by simp
  from Generate_missing_directory [OF a this] a b show ?thesis by (simp add: c d)
qed

text \<open>
  C7 as stated fails: where \<^verbatim>\<open>source/posts\<close> is a regular file, no directory, the check
  passes and \<open>Generate\<close> returns the error of listing it; and where the templates
  directory is missing but the tree copy fails, \<open>Generate\<close> returns the error of the copy.
\<close>

theorem Generate_other_error_without_directory:
  "os_Stat flat_world (Path ''src'' [''posts'']) =
     Inr \<lparr>Name = ''posts'', IsDir = False, Mode = 420, ModTime = demo_time\<rparr> \<and>
   fst (Generate flat_world demo_site) = Err ErrNotDir \<and>
   os_Stat torn_world (Path ''src'' [''templates'']) = Inl ErrNotExist \<and>
   fst (Generate torn_world demo_site) = Err (ErrorsNew ''error(s) copying source tree'')"
  by code_simp

text \<open>
  C8, as the code has it. With the tree copied and both directories there, a template
  file that is read but does not parse makes \<open>Generate\<close> panic with the parse error
  (\<^verbatim>\<open>template.Must\<close>), with no call made for any post; no error is returned.
\<close>

theorem Generate_template_parse_panics:
  assumes "fst (copyTree w s) = Ok ()"
    and "exists_path w (Path (Source s) [''posts''])"
    and "exists_path w (Path (Source s) [''templates''])"
    and "ReadFile w (Path (Source s) [''templates'', ''default.html'']) = Inr text"
    and "Parse w text = Inl e"
  shows "Generate w s = (Panic (PanicError e), snd (copyTree w s))"
proof -
  from assms(4) assms(5)
  have "ParseFiles w (Path (Source s) [''templates'', ''default.html'']) = Inl e"
    by (simp add: ParseFiles_def)
  with assms(2) assms(3) have "generatePosts w s = (Panic (PanicError e), [])"
    by (simp add: generatePosts_def Let_def)
  with Generate_after_copy [OF assms(1)] show ?thesis by simp
qed

theorem Generate_template_parse_panics_witness:
  "fst (copyTree unparsed_world demo_site) = Ok () \<and>
   exists_path unparsed_world (Path ''src'' [''posts'']) \<and>
   exists_path unparsed_world (Path ''src'' [''templates'']) \<and>
   ReadFile unparsed_world (Path ''src'' [''templates'', ''default.html'']) =
     Inr ''<body>{{.Content}}</body>'' \<and>
   Parse unparsed_world ''<body>{{.Content}}</body>'' = Inl (TemplateError ''unexpected EOF'') \<and>
   Generate unparsed_world demo_site =
     (Panic (PanicError (TemplateError ''unexpected EOF'')),
      snd (copyTree unparsed_world demo_site))"
proof -
  have d: "Source demo_site = ''src''" by (simp add: demo_site_def)
  have a: "fst (copyTree unparsed_world demo_site) = Ok ()" by code_simp
  have b: "exists_path unparsed_world (Path (Source demo_site) [''posts''])" by code_simp
  have c: "exists_path unparsed_world (Path (Source demo_site) [''templates''])" by code_simp
  have r: "ReadFile unparsed_world (Path (Source demo_site) [''templates'', ''default.html'']) =
     Inr ''<body>{{.Content}}</body>''" by code_simp
  have p: "Parse unparsed_world ''<body>{{.Content}}</body>'' =
     Inl (TemplateError ''unexpected EOF'')" by (simp add: unparsed_world_def)
  from Generate_template_parse_panics [OF a b c r p] a b c r p show ?thesis by (simp add: d)
qed

text \<open>
  C8 as stated fails: with a template that does not parse, \<open>Generate\<close> returns no error
  to its caller; it panics.
\<close>

theorem Generate_unparsed_template_is_no_error:
  "fst (Generate unparsed_world demo_site) = Panic (PanicError (TemplateError ''unexpected EOF'')) \<and>
   (\<forall>e. fst (Generate unparsed_world demo_site) \<noteq> Err e)"
proof -
  have "fst (Generate unparsed_world demo_site) =
          Panic (PanicError (TemplateError ''unexpected EOF''))" by code_simp
  then show ?thesis by simp
qed

text \<open>
  The loop of \<open>generatePosts\<close> reads the bytes a post's rendering writes and never the
  error it returns: no execution error of the template changes its result or its calls.
\<close>

lemma Post_Generate_mute:
  "fst (Post_Generate w post (mute tmpl)) = fst (Post_Generate w post tmpl)"
  by (simp add: Post_Generate_def mute_def Let_def)

lemma generatePosts_loop_ignores_render_errors:
  "generatePosts_loop w s postsDir (mute tmpl) entries evs =
   generatePosts_loop w s postsDir tmpl entries evs"
proof (induction entries arbitrary: evs)
  case Nil
  show ?case by simp
next
  case (Cons e entries)
  show ?case
  proof (cases "HasPrefix (Name e) ''.''")
    case True
    with Cons show ?thesis by simp
  next
    case False
    show ?thesis
    proof (cases "NewPostFromPath w (Join postsDir [Name e])")
      case (Ok post)
      show ?thesis
      proof (cases "fault w OpCreate (post_file s post)")
        case None
        obtain out rerr where g: "Post_Generate w post tmpl = (out, rerr)"
          by (cases "Post_Generate w post tmpl")
        obtain out' rerr' where g': "Post_Generate w post (mute tmpl) = (out', rerr')"
          by (cases "Post_Generate w post (mute tmpl)")
        from g g' Post_Generate_mute [of w post tmpl] have "out' = out" by simp
        with False Ok None g g' Cons show ?thesis by (simp add: Let_def)
      next
        case (Some err)
        with False Ok show ?thesis by (simp add: Let_def)
      qed
    next
      case (Err err)
      with False show ?thesis by simp
    next
      case (Panic v)
      with False show ?thesis by simp
    qed
  qed
qed

text \<open>
  C1 does not hold of the code. The template's execution fails on the first post of the
  listing (\<open>foo.bar.md\<close>); \<open>generatePosts\<close> drops the error that \<open>Post.Generate\<close>
  returns, goes on to the next post (\<open>hello.md\<close>) and \<open>Generate\<close> returns no error.
\<close>

theorem Generate_drops_render_error:
  "Post_Generate picky_world foo_post picky_template = ([], Some (TemplateError ''exec'')) \<and>
   Generate picky_world demo_site =
     (Ok (),
      [Mkdir (Path ''out'' [''images'']) 493,
       Create (Path ''out'' [''images'', ''logo.png'']),
       Chmod (Path ''out'' [''images'', ''logo.png'']) 420,
       Write (Path ''out'' [''images'', ''logo.png'']) ''PNG'',
       Mkdir (Path ''out'' [''sub'']) 493,
       MkdirAll (Path ''out'' [''2023'', ''07'']) 493,
       Create (Path ''out'' [''2023'', ''07'', ''foo.bar.html'']),
       Write (Path ''out'' [''2023'', ''07'', ''foo.bar.html'']) [],
       MkdirAll (Path ''out'' [''2023'', ''07'']) 493,
       Create (Path ''out'' [''2023'', ''07'', ''hello.html'']),
       Write (Path ''out'' [''2023'', ''07'', ''hello.html'']) ''<body><p># Hi</p></body>''])"
  by code_simp

theorem Generate_drops_render_error_witness:
  "fst (Generate picky_world demo_site) = Ok () \<and>
   NewPostFromPath picky_world (Path ''src'' [''posts'', ''foo.bar.md'']) = Ok foo_post"
proof -
  have "NewPostFromPath picky_world (Path ''src'' [''posts'', ''foo.bar.md'']) = Ok foo_post"
    by code_simp
  with Generate_drops_render_error show ?thesis by simp
qed

end
